theory Spec2Isabelle
  imports Main "HOL-Library.Word"
begin

unbundle bit_operations_syntax

section \<open>The gRPC codec of micro-codec-grpc\<close>

text \<open>
  The repository holds two revisions of \<^verbatim>\<open>grpc.go\<close>: \<^verbatim>\<open>src/grpc.go\<close> (which also
  carries \<^verbatim>\<open>util.go\<close> with \<^verbatim>\<open>decode\<close> and \<^verbatim>\<open>encode\<close>) and
  \<^verbatim>\<open>src/unnamed/part_000\<close>. Definitions taken from \<^verbatim>\<open>src/grpc.go\<close> keep the
  names of the source; definitions taken from \<^verbatim>\<open>src/unnamed/part_000\<close> carry the
  suffix \<open>_part0\<close>.
\<close>

subsection \<open>Bytes, strings and errors\<close>

type_synonym byte = "8 word"

text \<open>
  A Go \<^verbatim>\<open>[]byte\<close>. The nil slice is \<open>None\<close>; \<open>Some []\<close> is an empty slice that is
  not nil. \<^verbatim>\<open>len\<close> is 0 for both, \<^verbatim>\<open>d == nil\<close> holds for the first only.
\<close>

type_synonym bytes = "byte list option"

definition len :: "bytes \<Rightarrow> nat" where
  "len d = (case d of None \<Rightarrow> 0 | Some bs \<Rightarrow> length bs)"

definition contents :: "bytes \<Rightarrow> byte list" where
  "contents d = (case d of None \<Rightarrow> [] | Some bs \<Rightarrow> bs)"

text \<open>
  Go error values. \<open>EOF\<close> and \<open>ErrUnexpectedEOF\<close> are the sentinels of package
  \<^verbatim>\<open>io\<close>; \<open>New s\<close> is \<^verbatim>\<open>errors.New(s)\<close> (also any error of a library or of the
  transport, named by its text); the last two are the values built by the two
  \<^verbatim>\<open>fmt.Errorf\<close> calls of \<^verbatim>\<open>decode\<close>, with the two numbers they format.
\<close>

datatype error =
    EOF
  | ErrUnexpectedEOF
  | New string
  | ErrLargerThanMachine nat int
  | ErrLargerThanMax nat int

text \<open>\<^verbatim>\<open>%d\<close> of \<^verbatim>\<open>fmt\<close>: decimal digits, with a leading minus sign.\<close>

fun digit :: "nat \<Rightarrow> char" where
  "digit n = char_of (48 + n mod 10)"

function decimal :: "nat \<Rightarrow> string" where
  "decimal n = (if n < 10 then [digit n] else decimal (n div 10) @ [digit n])"
  by pat_completeness auto
termination
  by (relation "measure (\<lambda>n. n)") auto

definition fmt_d :: "int \<Rightarrow> string" where
  "fmt_d i = (if i < 0 then CHR ''-'' # decimal (nat (- i)) else decimal (nat i))"

text \<open>The method \<^verbatim>\<open>Error()\<close> of an error value: its text.\<close>

fun ErrorString :: "error \<Rightarrow> string" where
  "ErrorString EOF = ''EOF''"
| "ErrorString ErrUnexpectedEOF = ''unexpected EOF''"
| "ErrorString (New s) = s"
| "ErrorString (ErrLargerThanMachine l m) =
     ''grpc: received message larger than max length allowed on current machine (''
       @ fmt_d (int l) @ '' vs. '' @ fmt_d m @ '')''"
| "ErrorString (ErrLargerThanMax l m) =
     ''grpc: received message larger than max ('' @ fmt_d (int l) @ '' vs. '' @ fmt_d m @ '')''"

text \<open>
  \<^verbatim>\<open>strings.Split(s, sep)\<close> for a separator of one byte, and \<^verbatim>\<open>strings.Join\<close>.
  Splitting at \<open>n\<close> occurrences of the separator gives \<open>n + 1\<close> parts, so the result is
  never empty and the first branch of the \<open>case\<close> below is never taken.
\<close>

fun Split :: "string \<Rightarrow> char \<Rightarrow> string list" where
  "Split [] sep = [[]]"
| "Split (c # cs) sep =
     (if c = sep then [] # Split cs sep
      else (case Split cs sep of [] \<Rightarrow> [[c]] | p # ps \<Rightarrow> (c # p) # ps))"

fun Join :: "string list \<Rightarrow> string \<Rightarrow> string" where
  "Join [] sep = []"
| "Join [x] sep = x"
| "Join (x # y # ys) sep = x @ sep @ Join (y # ys) sep"

subsection \<open>The message and the codec\<close>

datatype MessageType = Error | Request | Response | Other nat

text \<open>
  \<^verbatim>\<open>codec.Message\<close>, with the fields the codec reads and writes. \<^verbatim>\<open>Header\<close> is a Go
  \<^verbatim>\<open>map[string]string\<close> (taken to be allocated: an assignment into a nil map is not
  modelled); reading a missing key gives the empty string, which \<open>hget\<close> does.
\<close>

record Message =
  Header :: "string \<rightharpoonup> string"
  Type :: MessageType
  Target :: string
  Endpoint :: string
  Body :: bytes
  Error' :: string

definition hget :: "(string \<rightharpoonup> string) \<Rightarrow> string \<Rightarrow> string" where
  "hget h k = (case h k of None \<Rightarrow> [] | Some v \<Rightarrow> v)"

record grpcCodec =
  ContentType :: string

text \<open>
  The first statement of ReadHeader and of Write, in both revisions:
  \<^verbatim>\<open>if ct := m.Header["content-type"]; len(ct) > 0 { c.ContentType = ct }\<close>.
\<close>

definition refresh :: "'z grpcCodec_scheme \<Rightarrow> Message \<Rightarrow> 'z grpcCodec_scheme" where
  "refresh c m =
     (let ct = hget (Header m) ''content-type''
      in if length ct > 0 then c\<lparr>ContentType := ct\<rparr> else c)"

subsection \<open>Readers, writers and the frame codec\<close>

text \<open>
  An \<^verbatim>\<open>io.Reader\<close> is a state \<open>'r\<close> with its method: \<open>Read r n\<close> is the call
  \<^verbatim>\<open>r.Read(p)\<close> with \<^verbatim>\<open>len(p) = n\<close>, and gives the bytes stored at the start of
  \<^verbatim>\<open>p\<close>, the error, and the reader after the call. The count \<^verbatim>\<open>n\<close> that Go returns
  is the number of bytes stored. An \<^verbatim>\<open>io.Writer\<close> is a state \<open>'w\<close> with
  \<open>Write w p\<close>, which gives the error and the writer after the call.
\<close>

type_synonym 'r Reader = "'r \<Rightarrow> nat \<Rightarrow> byte list \<times> error option \<times> 'r"

type_synonym 'w Writer = "'w \<Rightarrow> byte list \<Rightarrow> error option \<times> 'w"

text \<open>The buffer \<open>p\<close> after a read has stored \<open>got\<close> at its start.\<close>

definition into :: "byte list \<Rightarrow> byte list \<Rightarrow> byte list" where
  "into p got = take (length p) got @ drop (length got) p"

text \<open>
  Two implementations from the Go library: a \<^verbatim>\<open>bytes.Buffer\<close> read from (the state
  is what is left to read; reading from an empty buffer gives \<^verbatim>\<open>io.EOF\<close>) and a
  \<^verbatim>\<open>bytes.Buffer\<close> written to (the state is what has been written; it never fails).
\<close>

definition bytes_Read :: "(byte list) Reader" where
  "bytes_Read s n =
     (if s = [] then (if n = 0 then ([], None, s) else ([], Some EOF, s))
      else (take n s, None, drop n s))"

definition buffer_Write :: "(byte list) Writer" where
  "buffer_Write w p = (None, w @ p)"

text \<open>\<^verbatim>\<open>binary.BigEndian.Uint32\<close> and \<^verbatim>\<open>binary.BigEndian.PutUint32\<close>.\<close>

definition Uint32 :: "byte list \<Rightarrow> 32 word" where
  "Uint32 b = ucast (b ! 3) OR push_bit 8 (ucast (b ! 2)) OR push_bit 16 (ucast (b ! 1))
                OR push_bit 24 (ucast (b ! 0))"

definition PutUint32 :: "32 word \<Rightarrow> byte list" where
  "PutUint32 v = [ucast (drop_bit 24 v), ucast (drop_bit 16 v), ucast (drop_bit 8 v), ucast v]"

text \<open>
  \<^verbatim>\<open>maxInt = int(^uint(0) >> 1)\<close>, for a host whose \<^verbatim>\<open>uint\<close> has \<open>bits\<close> bits
  (32 or 64).
\<close>

definition maxInt :: "nat \<Rightarrow> int" where
  "maxInt bits = (2 ^ bits - 1) div 2"

text \<open>
  \<^verbatim>\<open>decode(r)\<close>. The parameters are the size of \<^verbatim>\<open>uint\<close> on the host, the value
  \<open>maxMsgSize\<close> of the variable \<^verbatim>\<open>codec.DefaultMaxMsgSize\<close> of the imported package, and
  the reader. The result
  is the triple the source returns and the reader after the call. Each of the two
  reads is one call of \<^verbatim>\<open>Read\<close>, as in the source. The conversion \<^verbatim>\<open>int(length)\<close>
  is exact where it is evaluated, since \<^verbatim>\<open>length\<close> is at most \<^verbatim>\<open>maxInt\<close> there.
\<close>

definition decode ::
  "nat \<Rightarrow> int \<Rightarrow> 'r Reader \<Rightarrow> 'r \<Rightarrow> (byte \<times> bytes \<times> error option) \<times> 'r" where
  "decode bits maxMsgSize Read r =
     (let header = replicate 5 0;
          (got, err, r) = Read r 5;
          n = min (length got) 5;
          header = into header got
      in if err \<noteq> None then
           (if err = Some EOF \<and> n = 0 then ((0, None, None), r)
            else ((0, None, err), r))
         else
           let cf = header ! 0;
               length' = Uint32 (drop 1 header)
           in if length' = 0 then ((cf, None, None), r)
              else if int (unat length') > maxInt bits then
                ((cf, None, Some (ErrLargerThanMachine (unat length') (maxInt bits))), r)
              else if int (unat length') > maxMsgSize then
                ((cf, None, Some (ErrLargerThanMax (unat length') maxMsgSize)), r)
              else
                let msg = replicate (unat length') 0;
                    (got, err, r) = Read r (length msg);
                    msg = into msg got
                in if err \<noteq> None then
                     ((cf, None, (if err = Some EOF then Some ErrUnexpectedEOF else err)), r)
                   else ((cf, Some msg, None), r))"

text \<open>
  \<^verbatim>\<open>encode(cf, buf, w)\<close>. \<^verbatim>\<open>uint32(len(buf))\<close> keeps the low 32 bits of the length.
\<close>

definition encode :: "'w Writer \<Rightarrow> byte \<Rightarrow> bytes \<Rightarrow> 'w \<Rightarrow> error option \<times> 'w" where
  "encode Write cf buf w =
     (let header = replicate 5 0;
          header = header[0 := cf];
          header = take 1 header @ PutUint32 (word_of_nat (len buf));
          (err, w) = Write w header
      in if err \<noteq> None then (err, w) else Write w (contents buf))"

subsection \<open>Values, options and the imported packages\<close>

text \<open>
  A Go \<^verbatim>\<open>interface{}\<close> value as the type switches of the codec see it: nil, a
  \<^verbatim>\<open>*codec.Frame\<close> with its \<^verbatim>\<open>Data\<close>, or any other value, with whether its type
  implements \<^verbatim>\<open>proto.Message\<close> (the newer protocol-buffer interface) and whether it
  implements the \<^verbatim>\<open>proto.Message\<close> of package \<^verbatim>\<open>github.com/golang/protobuf/proto\<close>
  (the older one, imported as \<^verbatim>\<open>oldproto\<close>). A target is passed by pointer; the
  functions below return the target after the call.
\<close>

datatype 'a iface =
    Nil
  | Frame (Data: bytes)
  | Value (isProto: bool) (isOldProto: bool) (content: 'a)

record MarshalOptions =
  UseEnumNumbers :: bool
  EmitUnpopulated :: bool
  UseProtoNames :: bool
  AllowPartial :: bool

record UnmarshalOptions =
  DiscardUnknown :: bool
  AllowPartial' :: bool

record Marshaler =
  OrigName :: bool
  EmitDefaults :: bool

record Unmarshaler =
  AllowUnknownFields :: bool

definition JsonpbMarshaler :: MarshalOptions where
  "JsonpbMarshaler = \<lparr>UseEnumNumbers = False, EmitUnpopulated = False,
                       UseProtoNames = True, AllowPartial = False\<rparr>"

definition JsonpbUnmarshaler :: UnmarshalOptions where
  "JsonpbUnmarshaler = \<lparr>DiscardUnknown = False, AllowPartial' = False\<rparr>"

definition OldJsonpbMarshaler :: Marshaler where
  "OldJsonpbMarshaler = \<lparr>OrigName = True, EmitDefaults = False\<rparr>"

definition OldJsonpbUnmarshaler :: Unmarshaler where
  "OldJsonpbUnmarshaler = \<lparr>AllowUnknownFields = False\<rparr>"

definition DefaultMarshalOptions :: MarshalOptions where
  "DefaultMarshalOptions = \<lparr>UseEnumNumbers = False, EmitUnpopulated = False,
                             UseProtoNames = True, AllowPartial = False\<rparr>"

definition DefaultUnmarshalOptions :: UnmarshalOptions where
  "DefaultUnmarshalOptions = \<lparr>DiscardUnknown = False, AllowPartial' = False\<rparr>"

definition flattenTag :: string where
  "flattenTag = ''flatten''"

text \<open>
  \<^verbatim>\<open>codec.Options\<close> with the two fields the codec reads. A context is given by what
  \<^verbatim>\<open>Value\<close> returns for the two keys the codec looks up, already asserted to the
  option types (\<open>None\<close> when the key is absent or holds another type).
\<close>

record Context =
  marshalOptionsKey :: "MarshalOptions option"
  unmarshalOptionsKey :: "UnmarshalOptions option"

record Options =
  TagName :: string
  Context :: "Context option"

record grpcCodec_part0 = grpcCodec +
  opts :: Options

text \<open>
  What the codec takes from outside: the size of \<^verbatim>\<open>uint\<close> on the host, the variables
  of package \<^verbatim>\<open>codec\<close>, the reflection helper \<^verbatim>\<open>rutil.StructFieldByTag\<close>, and the
  marshalling functions of \<^verbatim>\<open>encoding/json\<close>, of the two protocol-buffer packages
  and of their JSON packages. An unmarshalling function returns its error and the
  target after the call.
\<close>

record 'a env =
  uintSize :: nat
  DefaultMaxMsgSize :: int
  ErrInvalidMessage :: error
  ErrUnknownContentType :: error
  StructFieldByTag :: "'a iface \<Rightarrow> string \<Rightarrow> string \<Rightarrow> 'a iface \<times> error option"
  json_Marshal :: "'a iface \<Rightarrow> bytes \<times> error option"
  json_Unmarshal :: "bytes \<Rightarrow> 'a iface \<Rightarrow> error option \<times> 'a iface"
  proto_Marshal :: "'a iface \<Rightarrow> bytes \<times> error option"
  proto_Unmarshal :: "bytes \<Rightarrow> 'a iface \<Rightarrow> error option \<times> 'a iface"
  protojson_Marshal :: "MarshalOptions \<Rightarrow> 'a iface \<Rightarrow> bytes \<times> error option"
  protojson_Unmarshal :: "UnmarshalOptions \<Rightarrow> bytes \<Rightarrow> 'a iface \<Rightarrow> error option \<times> 'a iface"
  oldproto_Marshal :: "'a iface \<Rightarrow> bytes \<times> error option"
  oldproto_Unmarshal :: "bytes \<Rightarrow> 'a iface \<Rightarrow> error option \<times> 'a iface"
  oldjsonpb_MarshalToString :: "Marshaler \<Rightarrow> 'a iface \<Rightarrow> string \<times> error option"
  oldjsonpb_Unmarshal :: "Unmarshaler \<Rightarrow> bytes \<Rightarrow> 'a iface \<Rightarrow> error option \<times> 'a iface"

text \<open>The conversion \<^verbatim>\<open>[]byte(str)\<close>.\<close>

definition bytes_of_string :: "string \<Rightarrow> bytes" where
  "bytes_of_string s = Some (map of_char s)"

subsection \<open>ReadHeader\<close>

text \<open>
  \<^verbatim>\<open>ReadHeader(conn, m, t)\<close>; \<^verbatim>\<open>conn\<close> and \<^verbatim>\<open>t\<close> are not used by the source. The
  result is the returned error, the codec and the message after the call. The indices
  \<open>1\<close> and \<open>2\<close> are in range where they are used (three parts), and so is the last index
  of \<open>service\<close> (a split is never empty).
\<close>

definition ReadHeader :: "grpcCodec \<Rightarrow> Message \<Rightarrow> error option \<times> grpcCodec \<times> Message" where
  "ReadHeader c m =
     (let c = refresh c m;
          path = hget (Header m) '':path''
      in if length path = 0 \<or> path ! 0 \<noteq> CHR ''/'' then
           (None, c, m\<lparr>Target := hget (Header m) ''Micro-Service'',
                        Endpoint := hget (Header m) ''Micro-Endpoint''\<rparr>)
         else
           let parts = Split path CHR ''/'' in
           if length parts \<noteq> 3 then (Some (New ''Unknown request path''), c, m)
           else
             let service = Split (parts ! 1) CHR ''.'' in
             (None, c,
              m\<lparr>Endpoint := Join [service ! (length service - 1), parts ! 2] ''.'',
                Target := Join (take (length service - 1) service) ''.''\<rparr>))"

text \<open>
  The same function in \<^verbatim>\<open>src/unnamed/part_000\<close>. The two fallback header names are
  the constants \<^verbatim>\<open>metadata.HeaderService\<close> and \<^verbatim>\<open>metadata.HeaderEndpoint\<close> of another
  package, taken as parameters.
\<close>

definition ReadHeader_part0 ::
  "string \<Rightarrow> string \<Rightarrow> grpcCodec_part0 \<Rightarrow> Message
     \<Rightarrow> error option \<times> grpcCodec_part0 \<times> Message" where
  "ReadHeader_part0 HeaderService HeaderEndpoint c m =
     (let c = refresh c m;
          path = hget (Header m) '':path''
      in if length path = 0 \<or> path ! 0 \<noteq> CHR ''/'' then
           (None, c, m\<lparr>Target := hget (Header m) HeaderService,
                        Endpoint := hget (Header m) HeaderEndpoint\<rparr>)
         else
           let parts = Split path CHR ''/'' in
           if length parts \<noteq> 3 then (Some (New ''Unknown request path''), c, m)
           else
             let service = Split (parts ! 1) CHR ''.'' in
             (None, c,
              m\<lparr>Endpoint := Join [service ! (length service - 1), parts ! 2] ''.'',
                Target := Join (take (length service - 1) service) ''.''\<rparr>))"

subsection \<open>Unmarshal, Marshal and ReadBody in src/grpc.go\<close>

text \<open>
  \<^verbatim>\<open>Unmarshal(d, b)\<close>. A Go type switch tries its cases in the order they are written
  and takes \<^verbatim>\<open>default\<close> only when no case matches, wherever \<^verbatim>\<open>default\<close> stands:
  here nil, \<^verbatim>\<open>*codec.Frame\<close>, \<^verbatim>\<open>oldproto.Message\<close>, \<^verbatim>\<open>proto.Message\<close>, default.
  The case of \<^verbatim>\<open>*codec.Frame\<close> has no return statement, so after \<^verbatim>\<open>v.Data = d\<close> the
  function reaches its last line, as does a content type that no inner case names.
\<close>

definition Unmarshal :: "'a env \<Rightarrow> grpcCodec \<Rightarrow> bytes \<Rightarrow> 'a iface \<Rightarrow> error option \<times> 'a iface" where
  "Unmarshal X c d b =
     (if d = None then (None, b)
      else case b of
        Nil \<Rightarrow> (None, b)
      | Frame _ \<Rightarrow> (Some (ErrInvalidMessage X), Frame d)
      | Value new old _ \<Rightarrow>
          if old then
            (if ContentType c = ''application/grpc+json'' then
               oldjsonpb_Unmarshal X OldJsonpbUnmarshaler d b
             else if ContentType c = ''application/grpc+proto''
                     \<or> ContentType c = ''application/grpc'' then
               oldproto_Unmarshal X d b
             else (Some (ErrInvalidMessage X), b))
          else if new then
            (if ContentType c = ''application/grpc+json'' then
               protojson_Unmarshal X JsonpbUnmarshaler d b
             else if ContentType c = ''application/grpc+proto''
                     \<or> ContentType c = ''application/grpc'' then
               proto_Unmarshal X d b
             else (Some (ErrInvalidMessage X), b))
          else
            (if ContentType c = ''application/grpc+json'' then json_Unmarshal X d b
             else (Some (ErrInvalidMessage X), b)))"

text \<open>
  \<^verbatim>\<open>Marshal(b)\<close>: the cases are nil, \<^verbatim>\<open>*codec.Frame\<close>, \<^verbatim>\<open>proto.Message\<close>,
  \<^verbatim>\<open>oldproto.Message\<close>, default.
\<close>

definition Marshal :: "'a env \<Rightarrow> grpcCodec \<Rightarrow> 'a iface \<Rightarrow> bytes \<times> error option" where
  "Marshal X c b =
     (case b of
        Nil \<Rightarrow> (None, None)
      | Frame data \<Rightarrow> (data, None)
      | Value new old _ \<Rightarrow>
          if new then
            (if ContentType c = ''application/grpc+json'' then
               protojson_Marshal X JsonpbMarshaler b
             else if ContentType c = ''application/grpc+proto''
                     \<or> ContentType c = ''application/grpc'' then
               proto_Marshal X b
             else (None, Some (ErrUnknownContentType X)))
          else if old then
            (if ContentType c = ''application/grpc+json'' then
               (let (str, err) = oldjsonpb_MarshalToString X OldJsonpbMarshaler b
                in (bytes_of_string str, err))
             else if ContentType c = ''application/grpc+proto''
                     \<or> ContentType c = ''application/grpc'' then
               oldproto_Marshal X b
             else (None, Some (ErrUnknownContentType X)))
          else
            (if ContentType c = ''application/grpc+json'' then json_Marshal X b
             else (None, Some (ErrUnknownContentType X))))"

text \<open>
  \<^verbatim>\<open>ReadBody(conn, b)\<close>: the result is the error, the reader and the target after
  the call. The type switch has the cases of \<open>Unmarshal\<close> in the same order, without
  the nil case (a nil \<^verbatim>\<open>b\<close> has returned before).
\<close>

definition ReadBody ::
  "'a env \<Rightarrow> 'r Reader \<Rightarrow> grpcCodec \<Rightarrow> 'r \<Rightarrow> 'a iface \<Rightarrow> error option \<times> 'r \<times> 'a iface" where
  "ReadBody X Read c conn b =
     (if b = Nil then (None, conn, b)
      else
        let ((_, buf, err), conn) = decode (uintSize X) (DefaultMaxMsgSize X) Read conn
        in if err \<noteq> None then (err, conn, b)
           else case b of
             Nil \<Rightarrow> (None, conn, b)
           | Frame _ \<Rightarrow> (Some (ErrUnknownContentType X), conn, Frame buf)
           | Value new old _ \<Rightarrow>
               if old then
                 (if ContentType c = ''application/grpc+json'' then
                    (let (e, v) = oldjsonpb_Unmarshal X OldJsonpbUnmarshaler buf b in (e, conn, v))
                  else if ContentType c = ''application/grpc+proto''
                          \<or> ContentType c = ''application/grpc'' then
                    (let (e, v) = oldproto_Unmarshal X buf b in (e, conn, v))
                  else (Some (ErrUnknownContentType X), conn, b))
               else if new then
                 (if ContentType c = ''application/grpc+json'' then
                    (let (e, v) = protojson_Unmarshal X JsonpbUnmarshaler buf b in (e, conn, v))
                  else if ContentType c = ''application/grpc+proto''
                          \<or> ContentType c = ''application/grpc'' then
                    (let (e, v) = proto_Unmarshal X buf b in (e, conn, v))
                  else (Some (ErrUnknownContentType X), conn, b))
               else
                 (if ContentType c = ''application/grpc+json'' then
                    (let (e, v) = json_Unmarshal X buf b in (e, conn, v))
                  else (Some (ErrUnknownContentType X), conn, b)))"

subsection \<open>Unmarshal, Marshal and ReadBody in src/unnamed/part_000\<close>

text \<open>The type assertion \<^verbatim>\<open>v.(proto.Message)\<close> succeeds.\<close>

definition implements_proto :: "'a iface \<Rightarrow> bool" where
  "implements_proto v = (case v of Value new _ _ \<Rightarrow> new | _ \<Rightarrow> False)"

text \<open>
  \<^verbatim>\<open>Unmarshal(d, v, opts...)\<close>. When \<^verbatim>\<open>StructFieldByTag\<close> finds a field, the target
  becomes that field (a part of the caller's value); the result is the error and the
  value that was decoded into.
\<close>

definition Unmarshal_part0 ::
  "'a env \<Rightarrow> grpcCodec_part0 \<Rightarrow> bytes \<Rightarrow> 'a iface \<Rightarrow> (Options \<Rightarrow> Options) list
     \<Rightarrow> error option \<times> 'a iface" where
  "Unmarshal_part0 X c d v opts' =
     (if v = Nil \<or> len d = 0 then (None, v)
      else
        let options = foldl (\<lambda>options o'. o' options) (opts c) opts';
            (nv, nerr) = StructFieldByTag X v (TagName options) flattenTag;
            v = (if nerr = None then nv else v)
        in case v of
             Frame _ \<Rightarrow> (None, Frame d)
           | _ \<Rightarrow>
             if ContentType c = ''application/grpc+json'' then json_Unmarshal X d v
             else if \<not> implements_proto v then (Some (ErrInvalidMessage X), v)
             else
               let unmarshalOptions =
                     (case Context options of
                        None \<Rightarrow> DefaultUnmarshalOptions
                      | Some ctx \<Rightarrow>
                          (case unmarshalOptionsKey ctx of
                             None \<Rightarrow> DefaultUnmarshalOptions
                           | Some f \<Rightarrow> f))
               in if ContentType c = ''application/grpc+json'' then
                    protojson_Unmarshal X unmarshalOptions d v
                  else if ContentType c = ''application/grpc+proto''
                          \<or> ContentType c = ''application/grpc'' then
                    proto_Unmarshal X d v
                  else (Some (ErrInvalidMessage X), v))"

definition Marshal_part0 ::
  "'a env \<Rightarrow> grpcCodec_part0 \<Rightarrow> 'a iface \<Rightarrow> (Options \<Rightarrow> Options) list
     \<Rightarrow> bytes \<times> error option" where
  "Marshal_part0 X c v opts' =
     (if v = Nil then (None, None)
      else
        let options = foldl (\<lambda>options o'. o' options) (opts c) opts';
            (nv, nerr) = StructFieldByTag X v (TagName options) flattenTag;
            v = (if nerr = None then nv else v)
        in case v of
             Frame data \<Rightarrow> (data, None)
           | _ \<Rightarrow>
             if ContentType c = ''application/grpc+json'' then json_Marshal X v
             else if \<not> implements_proto v then (None, Some (ErrInvalidMessage X))
             else
               let marshalOptions =
                     (case Context options of
                        None \<Rightarrow> DefaultMarshalOptions
                      | Some ctx \<Rightarrow>
                          (case marshalOptionsKey ctx of
                             None \<Rightarrow> DefaultMarshalOptions
                           | Some f \<Rightarrow> f))
               in if ContentType c = ''application/grpc+json'' then
                    protojson_Marshal X marshalOptions v
                  else if ContentType c = ''application/grpc+proto''
                          \<or> ContentType c = ''application/grpc'' then
                    proto_Marshal X v
                  else (None, Some (ErrUnknownContentType X)))"

text \<open>
  \<^verbatim>\<open>ReadBody(conn, v)\<close>. The first result of \<^verbatim>\<open>decode\<close>, which the source names
  \<^verbatim>\<open>n\<close>, is the compression flag of the frame.
\<close>

definition ReadBody_part0 ::
  "'a env \<Rightarrow> 'r Reader \<Rightarrow> grpcCodec_part0 \<Rightarrow> 'r \<Rightarrow> 'a iface
     \<Rightarrow> error option \<times> 'r \<times> 'a iface" where
  "ReadBody_part0 X Read c conn v =
     (if v = Nil then (None, conn, v)
      else
        let ((n, buf, err), conn) = decode (uintSize X) (DefaultMaxMsgSize X) Read conn
        in if err \<noteq> None then (err, conn, v)
           else if n = 0 then (None, conn, v)
           else (let (e, v) = Unmarshal_part0 X c buf v [] in (e, conn, v)))"

subsection \<open>Write\<close>

text \<open>
  A call either panics or returns. The only panic modelled is the index out of range
  (with the index and the length).
\<close>

datatype panic = IndexOutOfRange nat nat

datatype 'a outcome = Panics panic | Returns 'a

text \<open>
  The switch on \<^verbatim>\<open>m.Type\<close> of Write, the same in both revisions. The result is the
  message after the switch, and whether the case has returned from Write (the case of
  \<^verbatim>\<open>codec.Error\<close> does, with a nil error). In the case of \<^verbatim>\<open>codec.Request\<close>,
  \<^verbatim>\<open>parts[0]\<close> is in range (a split is never empty) and \<^verbatim>\<open>parts[1]\<close> is in range
  when there are two parts at least.
\<close>

definition Write_header ::
  "'z grpcCodec_scheme \<Rightarrow> Message \<Rightarrow> (bool \<times> Message) outcome" where
  "Write_header c m =
     (case Type m of
        Request \<Rightarrow>
          (let parts = Split (Endpoint m) CHR ''.'' in
           if length parts < 2 then Panics (IndexOutOfRange 1 (length parts))
           else Returns (False,
             m\<lparr>Header := (Header m)(
                  '':method'' \<mapsto> ''POST'',
                  '':path'' \<mapsto> ''/'' @ Target m @ ''.'' @ parts ! 0 @ ''/'' @ parts ! 1,
                  '':proto'' \<mapsto> ''HTTP/2.0'',
                  ''te'' \<mapsto> ''trailers'',
                  ''user-agent'' \<mapsto> ''grpc-go/1.0.0'',
                  '':authority'' \<mapsto> Target m,
                  ''content-type'' \<mapsto> ContentType c)\<rparr>))
      | Response \<Rightarrow>
          Returns (False,
            m\<lparr>Header := (Header m)(
                 ''Trailer'' \<mapsto> ''grpc-status'',
                 ''content-type'' \<mapsto> ContentType c,
                 '':status'' \<mapsto> ''200'',
                 ''grpc-status'' \<mapsto> ''0'')\<rparr>)
      | Error \<Rightarrow>
          (let m = m\<lparr>Header := (Header m)(''Trailer'' \<mapsto> ''grpc-status, grpc-message'')\<rparr>;
               m = (if Error' m = ''EOS'' then
                      m\<lparr>Header := (Header m)(''grpc-status'' \<mapsto> ''0'')\<rparr>
                    else
                      m\<lparr>Header := (Header m)(''grpc-message'' \<mapsto> Error' m,
                                               ''grpc-status'' \<mapsto> ''13'')\<rparr>)
           in Returns (True, m))
      | Other _ \<Rightarrow> Returns (False, m))"

text \<open>
  The switch on the type of \<^verbatim>\<open>b\<close> in Write of \<^verbatim>\<open>src/grpc.go\<close>, which sets
  \<^verbatim>\<open>buf\<close> and \<^verbatim>\<open>err\<close>: the cases are \<^verbatim>\<open>*codec.Frame\<close>, \<^verbatim>\<open>proto.Message\<close>,
  \<^verbatim>\<open>oldproto.Message\<close>, default (which a nil \<^verbatim>\<open>b\<close> takes as well).
\<close>

definition Write_marshal :: "'a env \<Rightarrow> grpcCodec \<Rightarrow> 'a iface \<Rightarrow> bytes \<times> error option" where
  "Write_marshal X c b =
     (case b of
        Frame data \<Rightarrow> (data, None)
      | Value new old _ \<Rightarrow>
          if new then
            (if ContentType c = ''application/grpc+json'' then
               protojson_Marshal X JsonpbMarshaler b
             else if ContentType c = ''application/grpc+proto''
                     \<or> ContentType c = ''application/grpc'' then
               proto_Marshal X b
             else (None, Some (ErrUnknownContentType X)))
          else if old then
            (if ContentType c = ''application/grpc+json'' then
               (let (str, err) = oldjsonpb_MarshalToString X OldJsonpbMarshaler b
                in (bytes_of_string str, err))
             else if ContentType c = ''application/grpc+proto''
                     \<or> ContentType c = ''application/grpc'' then
               oldproto_Marshal X b
             else (None, Some (ErrUnknownContentType X)))
          else
            (if ContentType c = ''application/grpc+json'' then json_Marshal X b
             else (None, Some (ErrUnknownContentType X)))
      | Nil \<Rightarrow>
          (if ContentType c = ''application/grpc+json'' then json_Marshal X b
           else (None, Some (ErrUnknownContentType X))))"

text \<open>
  \<^verbatim>\<open>Write(conn, m, b)\<close> of \<^verbatim>\<open>src/grpc.go\<close>: the result is the error, the codec, the
  writer and the message after the call.
\<close>

definition Write ::
  "'a env \<Rightarrow> 'w Writer \<Rightarrow> grpcCodec \<Rightarrow> 'w \<Rightarrow> Message \<Rightarrow> 'a iface
     \<Rightarrow> (error option \<times> grpcCodec \<times> 'w \<times> Message) outcome" where
  "Write X Wr c conn m b =
     (let c = refresh c m
      in case Write_header c m of
           Panics p \<Rightarrow> Panics p
         | Returns (True, m) \<Rightarrow> Returns (None, c, conn, m)
         | Returns (False, m) \<Rightarrow>
             (case Write_marshal X c b of
                (buf, Some err) \<Rightarrow>
                  Returns (Some err, c, conn,
                    m\<lparr>Header := (Header m)(''grpc-status'' \<mapsto> ''8'',
                                             ''grpc-message'' \<mapsto> ErrorString err)\<rparr>)
              | (buf, None) \<Rightarrow>
                  if len buf = 0 then Returns (None, c, conn, m)
                  else (let (e, conn) = encode Wr 0 buf conn in Returns (e, c, conn, m))))"

text \<open>\<^verbatim>\<open>Write(conn, m, v)\<close> of \<^verbatim>\<open>src/unnamed/part_000\<close>.\<close>

definition Write_part0 ::
  "'a env \<Rightarrow> 'w Writer \<Rightarrow> grpcCodec_part0 \<Rightarrow> 'w \<Rightarrow> Message \<Rightarrow> 'a iface
     \<Rightarrow> (error option \<times> grpcCodec_part0 \<times> 'w \<times> Message) outcome" where
  "Write_part0 X Wr c conn m v =
     (let c = refresh c m
      in case Write_header c m of
           Panics p \<Rightarrow> Panics p
         | Returns (True, m) \<Rightarrow> Returns (None, c, conn, m)
         | Returns (False, m) \<Rightarrow>
             (case Marshal_part0 X c v [] of
                (buf, Some err) \<Rightarrow>
                  Returns (Some err, c, conn,
                    m\<lparr>Header := (Header m)(''grpc-status'' \<mapsto> ''8'',
                                             ''grpc-message'' \<mapsto> ErrorString err)\<rparr>)
              | (buf, None) \<Rightarrow>
                  if len buf = 0 then Returns (None, c, conn, m)
                  else (let m = m\<lparr>Body := buf\<rparr>;
                            (e, conn) = encode Wr 0 buf conn
                        in Returns (e, c, conn, m))))"

subsection \<open>An environment to run the definitions in\<close>

text \<open>
  A value here is the name of the library that decoded it last and its bytes. Each
  unmarshalling function stores its own name with the input it was given, and each
  marshalling function returns the bytes.
\<close>

definition stub_Marshal :: "string \<Rightarrow> (string \<times> byte list) iface \<Rightarrow> bytes \<times> error option" where
  "stub_Marshal name v =
     (case v of Value _ _ (_, x) \<Rightarrow> (Some x, None)
              | _ \<Rightarrow> (None, Some (New (name @ '': unsupported value''))))"

definition stub_Unmarshal ::
  "string \<Rightarrow> bytes \<Rightarrow> (string \<times> byte list) iface \<Rightarrow> error option \<times> (string \<times> byte list) iface" where
  "stub_Unmarshal name d v =
     (case v of Value new old _ \<Rightarrow> (None, Value new old (name, contents d))
              | _ \<Rightarrow> (Some (New (name @ '': unsupported value'')), v))"

definition example_env :: "(string \<times> byte list) env" where
  "example_env =
     \<lparr>uintSize = 64,
      DefaultMaxMsgSize = 4194304,
      ErrInvalidMessage = New ''invalid message'',
      ErrUnknownContentType = New ''unknown content type'',
      StructFieldByTag = (\<lambda>v tag name. (Nil, Some (New ''struct field not found''))),
      json_Marshal = stub_Marshal ''json'',
      json_Unmarshal = stub_Unmarshal ''json'',
      proto_Marshal = stub_Marshal ''proto'',
      proto_Unmarshal = stub_Unmarshal ''proto'',
      protojson_Marshal = (\<lambda>_. stub_Marshal ''protojson''),
      protojson_Unmarshal = (\<lambda>_. stub_Unmarshal ''protojson''),
      oldproto_Marshal = stub_Marshal ''oldproto'',
      oldproto_Unmarshal = stub_Unmarshal ''oldproto'',
      oldjsonpb_MarshalToString = (\<lambda>_ v. ([], Some (New ''oldjsonpb: unsupported value''))),
      oldjsonpb_Unmarshal = (\<lambda>_. stub_Unmarshal ''oldjsonpb'')\<rparr>"

definition example_codec :: grpcCodec where
  "example_codec = \<lparr>ContentType = ''application/grpc''\<rparr>"

definition example_codec_part0 :: grpcCodec_part0 where
  "example_codec_part0 =
     \<lparr>ContentType = ''application/grpc'', opts = \<lparr>TagName = ''codec'', Context = None\<rparr>\<rparr>"

definition example_message :: "MessageType \<Rightarrow> string \<Rightarrow> string \<Rightarrow> string \<Rightarrow> Message" where
  "example_message t target endpoint err =
     \<lparr>Header = Map.empty, Type = t, Target = target, Endpoint = endpoint,
      Body = None, Error' = err\<rparr>"

section \<open>Properties\<close>

subsection \<open>Splitting and joining\<close>

lemma Split_not_Nil: "Split s sep \<noteq> []"
  by (induction s) (auto split: list.splits)

lemma length_Split: "length (Split s sep) = Suc (count_list s sep)"
  by (induction s) (auto simp: Split_not_Nil split: list.splits)

lemma Split_no_sep: "sep \<notin> set s \<Longrightarrow> Split s sep = [s]"
  by (induction s) auto

lemma Split_append: "Split (a @ sep # b) sep = Split a sep @ Split b sep"
  by (induction a) (auto simp: Split_not_Nil split: list.splits)

lemma Join_Split: "Join (Split s sep) [sep] = s"
proof (induction s)
  case Nil
  show ?case by simp
next
  case (Cons c cs)
  obtain p ps where "Split cs sep = p # ps"
    using Split_not_Nil by (cases "Split cs sep") auto
  with Cons show ?case by (cases ps) auto
qed

lemma Split_parts_no_sep: "p \<in> set (Split s sep) \<Longrightarrow> sep \<notin> set p"
proof (induction s arbitrary: p)
  case Nil
  then show ?case by simp
next
  case (Cons c cs)
  obtain q qs where "Split cs sep = q # qs"
    using Split_not_Nil by (cases "Split cs sep") auto
  with Cons show ?case by (auto split: if_splits)
qed

lemma nth_last_index: "xs \<noteq> [] \<Longrightarrow> xs ! (length xs - Suc 0) = last xs"
  by (simp add: last_conv_nth)

lemma take_all_but_last: "take (length xs - Suc 0) xs = butlast xs"
  by (simp add: butlast_conv_take)

subsection \<open>ReadHeader on a path\<close>

text \<open>
  A path \<open>/pkg.name/meth\<close>, where \<open>name\<close> has no dot and no part has a slash, gives
  Target \<open>pkg\<close> and Endpoint \<open>name.meth\<close>.
\<close>

lemma Split_path:
  assumes "CHR ''/'' \<notin> set svc" and "CHR ''/'' \<notin> set meth"
  shows "Split (CHR ''/'' # svc @ CHR ''/'' # meth) CHR ''/'' = [[], svc, meth]"
  using assms by (simp add: Split_append Split_no_sep)

lemma Split_service:
  assumes "CHR ''.'' \<notin> set name"
  shows "last (Split (pkg @ CHR ''.'' # name) CHR ''.'') = name"
    and "Join (butlast (Split (pkg @ CHR ''.'' # name) CHR ''.'')) ''.'' = pkg"
  using assms Join_Split [of pkg "CHR ''.''"]
  by (simp_all add: Split_append Split_no_sep)

lemma ReadHeader_qualified:
  assumes "hget (Header m) '':path'' = CHR ''/'' # pkg @ CHR ''.'' # name @ CHR ''/'' # meth"
    and "CHR ''/'' \<notin> set pkg" and "CHR ''/'' \<notin> set name" and "CHR ''/'' \<notin> set meth"
    and "CHR ''.'' \<notin> set name"
  shows "ReadHeader c m = (None, refresh c m, m\<lparr>Endpoint := name @ ''.'' @ meth, Target := pkg\<rparr>)"
proof -
  have sp: "Split (CHR ''/'' # (pkg @ CHR ''.'' # name) @ CHR ''/'' # meth) CHR ''/''
              = [[], pkg @ CHR ''.'' # name, meth]"
    using assms(2-4) by (intro Split_path) auto
  have ne: "Split (pkg @ CHR ''.'' # name) CHR ''.'' \<noteq> []"
    by (rule Split_not_Nil)
  show ?thesis
    using sp ne Split_service [OF assms(5), of pkg]
    by (simp add: ReadHeader_def assms(1) Let_def nth_last_index take_all_but_last)
qed

text \<open>
  Claim C4. When the \<^verbatim>\<open>:path\<close> header starts with \<open>/\<close>, ReadHeader (in both revisions)
  returns the error "Unknown request path" exactly when the path does not split into
  three parts at \<open>/\<close>. When it does, no error is returned, Endpoint becomes the last
  part of the middle segment split at \<open>.\<close>, then \<open>.\<close>, then the third segment, and Target
  becomes the other parts of the middle segment joined with \<open>.\<close>.
\<close>

theorem ReadHeader_path:
  assumes "hget (Header m) '':path'' = path" and "path \<noteq> []" and "hd path = CHR ''/''"
  shows "(fst (ReadHeader c m) = Some (New ''Unknown request path'')
            \<longleftrightarrow> length (Split path CHR ''/'') \<noteq> 3)
       \<and> (fst (ReadHeader_part0 hs he c0 m) = Some (New ''Unknown request path'')
            \<longleftrightarrow> length (Split path CHR ''/'') \<noteq> 3)
       \<and> (length (Split path CHR ''/'') = 3 \<longrightarrow>
            (let service = Split (Split path CHR ''/'' ! 1) CHR ''.'';
                 method = Split path CHR ''/'' ! 2;
                 m1 = snd (snd (ReadHeader c m));
                 m2 = snd (snd (ReadHeader_part0 hs he c0 m))
             in fst (ReadHeader c m) = None \<and> fst (ReadHeader_part0 hs he c0 m) = None
              \<and> Endpoint m1 = last service @ ''.'' @ method
              \<and> Target m1 = Join (butlast service) ''.''
              \<and> Endpoint m2 = last service @ ''.'' @ method
              \<and> Target m2 = Join (butlast service) ''.''))"
proof -
  have p0: "\<not> (length path = 0 \<or> path ! 0 \<noteq> CHR ''/'')"
    using assms(2,3) by (simp add: hd_conv_nth)
  have svc: "\<And>s. Split s CHR ''.'' \<noteq> []"
    by (rule Split_not_Nil)
  show ?thesis
    using p0 assms(1)
    by (simp add: ReadHeader_def ReadHeader_part0_def Let_def nth_last_index
        take_all_but_last svc)
qed

theorem ReadHeader_path_witness:
  "(let m = \<lparr>Header = [ '':path'' \<mapsto> ''/pkg.sub.Service/Method'' ], Type = Request,
             Target = [], Endpoint = [], Body = None, Error' = []\<rparr>;
        c = example_codec;
        c0 = example_codec_part0
    in hget (Header m) '':path'' = ''/pkg.sub.Service/Method''
     \<and> length (Split ''/pkg.sub.Service/Method'' CHR ''/'') = 3
     \<and> fst (ReadHeader c m) = None
     \<and> Target (snd (snd (ReadHeader c m))) = ''pkg.sub''
     \<and> Endpoint (snd (snd (ReadHeader c m))) = ''Service.Method''
     \<and> Target (snd (snd (ReadHeader_part0 ''Micro-Service'' ''Micro-Endpoint'' c0 m))) = ''pkg.sub''
     \<and> Endpoint (snd (snd (ReadHeader_part0 ''Micro-Service'' ''Micro-Endpoint'' c0 m)))
         = ''Service.Method'')"
  using ReadHeader_path [of
      "\<lparr>Header = [ '':path'' \<mapsto> ''/pkg.sub.Service/Method'' ], Type = Request,
        Target = [], Endpoint = [], Body = None, Error' = []\<rparr>"
      "''/pkg.sub.Service/Method''"
      example_codec "''Micro-Service''" "''Micro-Endpoint''" example_codec_part0]
  by (simp add: hget_def Let_def)

subsection \<open>The frame codec\<close>

lemma Uint32_PutUint32: "Uint32 (PutUint32 v) = v"
  unfolding Uint32_def PutUint32_def
proof (rule bit_word_eqI)
  fix n
  assume "n < LENGTH(32)"
  then have n: "n < 32"
    by simp
  consider "n < 8" | "8 \<le> n" "n < 16" | "16 \<le> n" "n < 24" | "24 \<le> n"
    by linarith
  then show "bit (ucast ([ucast (drop_bit 24 v), ucast (drop_bit 16 v),
                          ucast (drop_bit 8 v), ucast v :: byte] ! 3)
               OR push_bit 8 (ucast ([ucast (drop_bit 24 v), ucast (drop_bit 16 v),
                          ucast (drop_bit 8 v), ucast v :: byte] ! 2))
               OR push_bit 16 (ucast ([ucast (drop_bit 24 v), ucast (drop_bit 16 v),
                          ucast (drop_bit 8 v), ucast v :: byte] ! 1))
               OR push_bit 24 (ucast ([ucast (drop_bit 24 v), ucast (drop_bit 16 v),
                          ucast (drop_bit 8 v), ucast v :: byte] ! 0)) :: 32 word) n
             = bit v n"
    using n by cases (auto simp: bit_simps)
qed

lemma into_full: "length got = length p \<Longrightarrow> into p got = got"
  by (simp add: into_def)

lemma decode_header_error:
  assumes "Read r 5 = (got, Some e, r1)"
  shows "decode bits mx Read r =
           (if e = EOF \<and> got = [] then ((0, None, None), r1) else ((0, None, Some e), r1))"
  using assms by (auto simp: decode_def Let_def min_def split: if_splits)

lemma replicate_5: "replicate 5 x = [x, x, x, x, x]"
  by (simp add: eval_nat_numeral)

lemma decode_header_ok:
  assumes "Read r 5 = (got, None, r1)"
    and "header = into (replicate 5 0) got"
    and "l = Uint32 (drop 1 header)"
  shows "decode bits mx Read r =
     (if l = 0 then ((header ! 0, None, None), r1)
      else if int (unat l) > maxInt bits then
        ((header ! 0, None, Some (ErrLargerThanMachine (unat l) (maxInt bits))), r1)
      else if int (unat l) > mx then
        ((header ! 0, None, Some (ErrLargerThanMax (unat l) mx)), r1)
      else (case Read r1 (unat l) of (got2, err2, r2) \<Rightarrow>
         if err2 \<noteq> None then
           ((header ! 0, None, (if err2 = Some EOF then Some ErrUnexpectedEOF else err2)), r2)
         else ((header ! 0, Some (into (replicate (unat l) 0) got2), None), r2)))"
  using assms by (simp add: decode_def Let_def split: prod.splits)

lemma encode_buffer:
  "encode buffer_Write cf buf w =
     (None, w @ cf # PutUint32 (word_of_nat (len buf)) @ contents buf)"
  by (simp add: encode_def buffer_Write_def Let_def replicate_5)

lemma length_PutUint32: "length (PutUint32 v) = 4"
  by (simp add: PutUint32_def)

lemma bytes_Read_frame:
  "bytes_Read (cf # PutUint32 v @ rest) 5 = (cf # PutUint32 v, None, rest)"
  by (simp add: bytes_Read_def length_PutUint32)

lemma decode_frame:
  "decode bits mx bytes_Read (cf # PutUint32 v @ rest) =
     (if v = 0 then ((cf, None, None), rest)
      else if int (unat v) > maxInt bits then
        ((cf, None, Some (ErrLargerThanMachine (unat v) (maxInt bits))), rest)
      else if int (unat v) > mx then
        ((cf, None, Some (ErrLargerThanMax (unat v) mx)), rest)
      else (case bytes_Read rest (unat v) of (got2, err2, r2) \<Rightarrow>
         if err2 \<noteq> None then
           ((cf, None, (if err2 = Some EOF then Some ErrUnexpectedEOF else err2)), r2)
         else ((cf, Some (into (replicate (unat v) 0) got2), None), r2)))"
proof -
  have h: "cf # PutUint32 v = into (replicate 5 0) (cf # PutUint32 v)"
    by (simp add: into_def length_PutUint32)
  have l: "v = Uint32 (drop 1 (cf # PutUint32 v))"
    by (simp add: Uint32_PutUint32)
  show ?thesis
    using decode_header_ok [of bytes_Read "cf # PutUint32 v @ rest" "cf # PutUint32 v" rest
        "cf # PutUint32 v" v bits mx] bytes_Read_frame h l
    by (simp split: prod.splits)
qed

lemma decode_wrapped_length:
  assumes "length bs = 2 ^ 32"
  shows "decode bits mx bytes_Read (snd (encode buffer_Write cf (Some bs) [])) = ((cf, None, None), bs)"
proof -
  have "(word_of_nat (length bs) :: 32 word) = 0"
    using assms by simp
  then show ?thesis
    using decode_frame [of bits mx cf 0 bs]
    by (simp add: encode_buffer len_def contents_def)
qed


text \<open>
  Claim C2, as amended. For every compression flag and every payload whose length is
  at most the maximum message size, at most \<open>maxInt\<close> and below \<open>2 ^ 32\<close>, encode
  into a buffer succeeds and writes the flag, the length and the payload, and decode
  of these bytes (whatever follows them) returns the flag and the payload with no
  error and leaves what follows unread. An empty payload comes back as the nil slice.
\<close>

theorem encode_decode_roundtrip:
  assumes "int (len buf) \<le> mx" and "int (len buf) \<le> maxInt bits"
    and "len buf < 2 ^ 32"
  shows "encode buffer_Write cf buf w
           = (None, w @ cf # PutUint32 (word_of_nat (len buf)) @ contents buf)
       \<and> (\<exists>p. decode bits mx bytes_Read
                 (cf # PutUint32 (word_of_nat (len buf)) @ contents buf @ rest)
               = ((cf, p, None), rest)
              \<and> contents p = contents buf)"
proof -
  let ?v = "word_of_nat (len buf) :: 32 word"
  have u: "unat ?v = len buf"
    using assms(3) by (simp add: unat_of_nat)
  have lc: "length (contents buf) = len buf"
    by (simp add: len_def contents_def split: option.splits)
  show ?thesis
  proof (cases "len buf = 0")
    case True
    then have "contents buf = []" using lc by simp
    with True show ?thesis
      by (simp add: encode_buffer decode_frame contents_def)
  next
    case False
    then have v0: "?v \<noteq> 0" using u by (metis unat_0)
    have ne: "contents buf @ rest \<noteq> []" using False lc by auto
    have rd: "bytes_Read (contents buf @ rest) (len buf) = (contents buf, None, rest)"
      using ne lc by (simp add: bytes_Read_def)
    show ?thesis
      using assms(1,2) v0 u rd lc
      by (simp add: encode_buffer decode_frame into_full contents_def)
  qed
qed

theorem encode_decode_roundtrip_witness:
  "int (len (Some [1, 2, 3])) \<le> 4194304 \<and> int (len (Some [1, 2, 3])) \<le> maxInt 64
   \<and> len (Some [1, 2, 3]) < 2 ^ 32
   \<and> encode buffer_Write 0 (Some [1, 2, 3]) [] = (None, [0, 0, 0, 0, 3, 1, 2, 3])
   \<and> decode 64 4194304 bytes_Read [0, 0, 0, 0, 3, 1, 2, 3] = ((0, Some [1, 2, 3], None), [])"
  using encode_decode_roundtrip [of "Some [1, 2, 3]" 4194304 64 0 "[]" "[]"]
  by (simp add: len_def contents_def maxInt_def PutUint32_def decode_def bytes_Read_def
      into_def Uint32_def Let_def)

text \<open>
  Claim C2 as stated fails on a host with a 64-bit \<^verbatim>\<open>uint\<close> and a maximum message
  size of \<open>2 ^ 32\<close>: for a payload of \<open>2 ^ 32\<close> bytes, \<^verbatim>\<open>uint32(len(buf))\<close> is 0, encode
  writes a header with length 0, and decode returns an empty payload.
\<close>

theorem roundtrip_counterexample:
  "int (len (Some (replicate (2 ^ 32) 0))) \<le> 2 ^ 32
   \<and> int (len (Some (replicate (2 ^ 32) 0))) \<le> maxInt 64
   \<and> fst (encode buffer_Write 1 (Some (replicate (2 ^ 32) 0)) []) = None
   \<and> fst (decode 64 (2 ^ 32) bytes_Read
            (snd (encode buffer_Write 1 (Some (replicate (2 ^ 32) 0)) [])))
       = (1, None, None)
   \<and> contents None \<noteq> contents (Some (replicate (2 ^ 32) 0))"
proof -
  have l: "length (replicate (2 ^ 32) (0 :: byte)) = 2 ^ 32"
    by (rule length_replicate)
  have "replicate (2 ^ 32) (0 :: byte) \<noteq> []"
    using l by (metis list.size(3) zero_neq_numeral power_eq_0_iff)
  then show ?thesis
    using decode_wrapped_length [OF l, of 64 "2 ^ 32" 1] l
    by (simp add: encode_buffer len_def contents_def maxInt_def del: replicate_eq_replicate)
qed

text \<open>
  Claim C6, at the failing input. From a stream that holds three bytes only, the one
  call of \<^verbatim>\<open>Read\<close> stores three bytes and returns no error, and decode goes on with a
  header whose last two bytes are zero: it returns flag 1, no payload and no error.
  (When the call of \<^verbatim>\<open>Read\<close> returns an error, \<open>decode_header_error\<close> above applies.)
\<close>

theorem decode_short_header:
  "bytes_Read [1, 0, 0] 5 = ([1, 0, 0], None, [])
   \<and> decode 64 4194304 bytes_Read [1, 0, 0] = ((1, None, None), [])"
  by (simp add: decode_def bytes_Read_def into_def Uint32_def maxInt_def Let_def)

text \<open>
  Claim C7. When the header is read without error, the maximum message size is not
  negative, and the declared length exceeds \<open>maxInt\<close> or the maximum message size,
  decode returns the flag, no payload and an error that carries the length and the
  limit that applies, and the reader is as the header read left it: no second read
  happens. The two errors differ, as values and as texts.
\<close>

theorem decode_size_exceeded:
  assumes "Read r 5 = (got, None, r1)"
    and "header = into (replicate 5 0) got"
    and "l = Uint32 (drop 1 header)"
    and "0 \<le> mx"
    and "int (unat l) > maxInt bits \<or> int (unat l) > mx"
  shows "decode bits mx Read r =
           ((header ! 0, None,
             Some (if int (unat l) > maxInt bits
                   then ErrLargerThanMachine (unat l) (maxInt bits)
                   else ErrLargerThanMax (unat l) mx)), r1)
       \<and> ErrLargerThanMachine (unat l) (maxInt bits) \<noteq> ErrLargerThanMax (unat l) mx
       \<and> ErrorString (ErrLargerThanMachine (unat l) (maxInt bits))
           \<noteq> ErrorString (ErrLargerThanMax (unat l) mx)"
proof -
  have "0 \<le> maxInt bits"
    by (simp add: maxInt_def)
  with assms(4,5) have nz: "l \<noteq> 0"
    by auto
  note dec = decode_header_ok [where Read = Read and r = r and got = got and ?r1.0 = r1
      and header = header and l = l and bits = bits and mx = mx, OF assms(1-3)]
  show ?thesis
  proof (cases "int (unat l) > maxInt bits")
    case True
    then show ?thesis
      unfolding dec using nz by simp
  next
    case False
    then have "int (unat l) > mx"
      using assms(5) by simp
    then show ?thesis
      unfolding dec using nz False by simp
  qed
qed

theorem decode_size_exceeded_witness:
  "bytes_Read [0, 0, 0x40, 0, 1, 7, 7, 7] 5 = ([0, 0, 0x40, 0, 1], None, [7, 7, 7])
   \<and> [0, 0, 0x40, 0, 1] = into (replicate 5 0) [0, 0, 0x40, 0, 1 :: byte]
   \<and> (4194305 :: 32 word) = Uint32 (drop 1 [0, 0, 0x40, 0, 1])
   \<and> (0 :: int) \<le> 4194304
   \<and> int (unat (4194305 :: 32 word)) > 4194304
   \<and> decode 64 4194304 bytes_Read [0, 0, 0x40, 0, 1, 7, 7, 7]
        = ((0, None, Some (ErrLargerThanMax 4194305 4194304)), [7, 7, 7])"
proof -
  have a: "bytes_Read [0, 0, 0x40, 0, 1, 7, 7, 7] 5 = ([0, 0, 0x40, 0, 1], None, [7, 7, 7])"
    by (simp add: bytes_Read_def)
  have b: "[0, 0, 0x40, 0, 1] = into (replicate 5 0) [0, 0, 0x40, 0, 1 :: byte]"
    by (simp add: into_def)
  have c: "(4194305 :: 32 word) = Uint32 (drop 1 [0, 0, 0x40, 0, 1])"
    by (simp add: Uint32_def)
  have d: "(0 :: int) \<le> 4194304"
    by simp
  have e: "int (unat (4194305 :: 32 word)) > maxInt 64 \<or> int (unat (4194305 :: 32 word)) > 4194304"
    by simp
  show ?thesis
    using decode_size_exceeded [where Read = bytes_Read and r = "[0, 0, 0x40, 0, 1, 7, 7, 7]"
        and got = "[0, 0, 0x40, 0, 1]" and ?r1.0 = "[7, 7, 7]" and header = "[0, 0, 0x40, 0, 1]"
        and l = 4194305 and mx = 4194304 and bits = 64] a b c d e
    by (simp add: maxInt_def)
qed

subsection \<open>Write\<close>

lemma Split_length_less_2: "length (Split s sep) < 2 \<longleftrightarrow> sep \<notin> set s"
  by (simp add: length_Split count_list_0_iff)

lemma Write_header_Error:
  "Type m = Error \<Longrightarrow> Write_header c m = Returns (True,
     m\<lparr>Header := (if Error' m = ''EOS''
                   then (Header m)(''Trailer'' \<mapsto> ''grpc-status, grpc-message'',
                                   ''grpc-status'' \<mapsto> ''0'')
                   else (Header m)(''Trailer'' \<mapsto> ''grpc-status, grpc-message'',
                                   ''grpc-message'' \<mapsto> Error' m,
                                   ''grpc-status'' \<mapsto> ''13''))\<rparr>)"
  by (simp add: Write_header_def Let_def)

lemma Write_header_Request_panic:
  "Type m = Request \<Longrightarrow> CHR ''.'' \<notin> set (Endpoint m)
     \<Longrightarrow> Write_header c m = Panics (IndexOutOfRange 1 1)"
  by (simp add: Write_header_def Split_no_sep)

lemma Write_header_Request_ok:
  "Type m = Request \<Longrightarrow> CHR ''.'' \<in> set (Endpoint m)
     \<Longrightarrow> \<exists>m'. Write_header c m = Returns (False, m') \<and> Body m' = Body m"
  by (simp add: Write_header_def Let_def Split_length_less_2)

lemma Write_header_Response:
  "Type m = Response \<Longrightarrow> \<exists>m'. Write_header c m = Returns (False, m') \<and> Body m' = Body m"
  by (simp add: Write_header_def)

lemma Write_panics:
  "Write_header (refresh c m) m = Panics p \<Longrightarrow> Write X Wr c conn m b = Panics p"
  by (simp add: Write_def Let_def)

lemma Write_part0_panics:
  "Write_header (refresh c m) m = Panics p \<Longrightarrow> Write_part0 X Wr c conn m v = Panics p"
  by (simp add: Write_part0_def Let_def)

lemma Write_continues:
  "Write_header (refresh c m) m = Returns (False, m') \<Longrightarrow>
   Write X Wr c conn m b =
     (case Write_marshal X (refresh c m) b of
        (buf, Some err) \<Rightarrow>
          Returns (Some err, refresh c m, conn,
            m'\<lparr>Header := (Header m')(''grpc-status'' \<mapsto> ''8'',
                                      ''grpc-message'' \<mapsto> ErrorString err)\<rparr>)
      | (buf, None) \<Rightarrow>
          if len buf = 0 then Returns (None, refresh c m, conn, m')
          else (let (e, conn) = encode Wr 0 buf conn in Returns (e, refresh c m, conn, m')))"
  by (simp add: Write_def Let_def)

lemma Write_part0_continues:
  "Write_header (refresh c m) m = Returns (False, m') \<Longrightarrow>
   Write_part0 X Wr c conn m v =
     (case Marshal_part0 X (refresh c m) v [] of
        (buf, Some err) \<Rightarrow>
          Returns (Some err, refresh c m, conn,
            m'\<lparr>Header := (Header m')(''grpc-status'' \<mapsto> ''8'',
                                      ''grpc-message'' \<mapsto> ErrorString err)\<rparr>)
      | (buf, None) \<Rightarrow>
          if len buf = 0 then Returns (None, refresh c m, conn, m')
          else (let m' = m'\<lparr>Body := buf\<rparr>;
                    (e, conn) = encode Wr 0 buf conn
                in Returns (e, refresh c m, conn, m')))"
  by (simp add: Write_part0_def Let_def)

lemma Write_returns:
  assumes "Write_header (refresh c m) m = Returns (False, m')"
  shows "\<exists>r. Write X Wr c conn m b = Returns r"
  unfolding Write_continues [OF assms]
  by (cases "Write_marshal X (refresh c m) b")
     (auto split: option.splits prod.splits simp: Let_def)

lemma Write_part0_returns:
  assumes "Write_header (refresh c m) m = Returns (False, m')"
  shows "\<exists>r. Write_part0 X Wr c conn m v = Returns r"
  unfolding Write_part0_continues [OF assms]
  by (cases "Marshal_part0 X (refresh c m) v []")
     (auto split: option.splits prod.splits simp: Let_def)

text \<open>
  Write on a request with Endpoint \<open>Foo.Bar\<close> and Target \<open>a.b\<close>, and a frame of two
  bytes as body: the headers of the request, and the frame written with flag 0.
\<close>

lemma Write_example:
  "Write example_env buffer_Write example_codec [] (example_message Request ''a.b'' ''Foo.Bar'' [])
        (Frame (Some [1, 2]))
   = Returns (None, example_codec, [0, 0, 0, 0, 2, 1, 2],
       (example_message Request ''a.b'' ''Foo.Bar'' [])
         \<lparr>Header := [ '':method'' \<mapsto> ''POST'', '':path'' \<mapsto> ''/a.b.Foo/Bar'',
             '':proto'' \<mapsto> ''HTTP/2.0'', ''te'' \<mapsto> ''trailers'',
             ''user-agent'' \<mapsto> ''grpc-go/1.0.0'', '':authority'' \<mapsto> ''a.b'',
             ''content-type'' \<mapsto> ''application/grpc'']\<rparr>)"
  by (simp add: Write_def Write_header_def Write_marshal_def example_message_def refresh_def
      hget_def example_codec_def Let_def len_def encode_def buffer_Write_def PutUint32_def
      contents_def replicate_5)

text \<open>
  Claim C3. For a message of kind Error, Write (in both revisions) returns no error,
  whatever the body value, the imported packages and the writer are; the writer is as
  before; the message differs from the one passed in only in its headers:
  \<open>Trailer\<close> is set, and either \<open>grpc-status\<close> is \<open>0\<close> (error string \<open>EOS\<close>) or
  \<open>grpc-message\<close> is the error string and \<open>grpc-status\<close> is \<open>13\<close>.
\<close>

theorem Write_Error:
  assumes "Type m = Error"
  shows "(let m' = m\<lparr>Header :=
                     (if Error' m = ''EOS''
                      then (Header m)(''Trailer'' \<mapsto> ''grpc-status, grpc-message'',
                                      ''grpc-status'' \<mapsto> ''0'')
                      else (Header m)(''Trailer'' \<mapsto> ''grpc-status, grpc-message'',
                                      ''grpc-message'' \<mapsto> Error' m,
                                      ''grpc-status'' \<mapsto> ''13''))\<rparr>
          in Write X Wr c conn m b = Returns (None, refresh c m, conn, m')
           \<and> Write_part0 X Wr' c0 conn' m v = Returns (None, refresh c0 m, conn', m'))"
  using assms by (simp add: Write_def Write_part0_def Write_header_Error Let_def)

theorem Write_Error_witness:
  "Type (example_message Error ''svc'' ''Foo.Bar'' ''EOS'') = Error
   \<and> Type (example_message Error ''svc'' ''Foo.Bar'' ''boom'') = Error
   \<and> Write example_env buffer_Write example_codec [] (example_message Error ''svc'' ''Foo.Bar'' ''EOS'')
        (Frame (Some [1, 2]))
      = Returns (None, example_codec, [],
          (example_message Error ''svc'' ''Foo.Bar'' ''EOS'')
            \<lparr>Header := [''Trailer'' \<mapsto> ''grpc-status, grpc-message'', ''grpc-status'' \<mapsto> ''0'']\<rparr>)
   \<and> Write_part0 example_env buffer_Write example_codec_part0 []
        (example_message Error ''svc'' ''Foo.Bar'' ''boom'') (Frame (Some [1, 2]))
      = Returns (None, example_codec_part0, [],
          (example_message Error ''svc'' ''Foo.Bar'' ''boom'')
            \<lparr>Header := [''Trailer'' \<mapsto> ''grpc-status, grpc-message'',
                         ''grpc-message'' \<mapsto> ''boom'', ''grpc-status'' \<mapsto> ''13'']\<rparr>)"
  using Write_Error [of "example_message Error ''svc'' ''Foo.Bar'' ''EOS''" example_env
      buffer_Write example_codec "[]" "Frame (Some [1, 2])" buffer_Write example_codec_part0
      "[]" "Frame (Some [1, 2])"]
    Write_Error [of "example_message Error ''svc'' ''Foo.Bar'' ''boom''" example_env
      buffer_Write example_codec "[]" "Frame (Some [1, 2])" buffer_Write example_codec_part0
      "[]" "Frame (Some [1, 2])"]
  by (simp add: example_message_def refresh_def hget_def Let_def)

text \<open>
  Claim C10. For a message of kind Request, Write (in both revisions) panics with an
  index out of range (index 1, length 1) when Endpoint contains no \<open>.\<close>, and returns
  when Endpoint contains one.
\<close>

theorem Write_Request_no_dot:
  assumes "Type m = Request"
  shows "(CHR ''.'' \<notin> set (Endpoint m) \<longrightarrow>
            Write X Wr c conn m b = Panics (IndexOutOfRange 1 1)
          \<and> Write_part0 X Wr' c0 conn' m v = Panics (IndexOutOfRange 1 1))
       \<and> (CHR ''.'' \<in> set (Endpoint m) \<longrightarrow>
            (\<exists>r. Write X Wr c conn m b = Returns r)
          \<and> (\<exists>r. Write_part0 X Wr' c0 conn' m v = Returns r))"
proof (cases "CHR ''.'' \<in> set (Endpoint m)")
  case True
  obtain m1 where m1: "Write_header (refresh c m) m = Returns (False, m1)"
    using Write_header_Request_ok [OF assms True] by blast
  obtain m2 where m2: "Write_header (refresh c0 m) m = Returns (False, m2)"
    using Write_header_Request_ok [OF assms True] by blast
  have "\<exists>r. Write X Wr c conn m b = Returns r"
    by (rule Write_returns [OF m1])
  moreover have "\<exists>r. Write_part0 X Wr' c0 conn' m v = Returns r"
    by (rule Write_part0_returns [OF m2])
  ultimately show ?thesis
    using True by simp
next
  case False
  have "Write X Wr c conn m b = Panics (IndexOutOfRange 1 1)"
    by (rule Write_panics [OF Write_header_Request_panic [OF assms False]])
  moreover have "Write_part0 X Wr' c0 conn' m v = Panics (IndexOutOfRange 1 1)"
    by (rule Write_part0_panics [OF Write_header_Request_panic [OF assms False]])
  ultimately show ?thesis
    using False by simp
qed

theorem Write_Request_no_dot_witness:
  "Type (example_message Request ''svc'' ''FooBar'' []) = Request
   \<and> CHR ''.'' \<notin> set (Endpoint (example_message Request ''svc'' ''FooBar'' []))
   \<and> Write example_env buffer_Write example_codec [] (example_message Request ''svc'' ''FooBar'' [])
        (Frame (Some [1, 2])) = Panics (IndexOutOfRange 1 1)
   \<and> Write_part0 example_env buffer_Write example_codec_part0 []
        (example_message Request ''svc'' ''FooBar'' []) (Frame (Some [1, 2]))
      = Panics (IndexOutOfRange 1 1)
   \<and> Type (example_message Request ''a.b'' ''Foo.Bar'' []) = Request
   \<and> CHR ''.'' \<in> set (Endpoint (example_message Request ''a.b'' ''Foo.Bar'' []))
   \<and> (\<exists>r. Write example_env buffer_Write example_codec [] (example_message Request ''a.b'' ''Foo.Bar'' [])
        (Frame (Some [1, 2])) = Returns r)
   \<and> (\<exists>r. Write_part0 example_env buffer_Write example_codec_part0 []
        (example_message Request ''a.b'' ''Foo.Bar'' []) (Frame (Some [1, 2])) = Returns r)"
  using Write_Request_no_dot [of "example_message Request ''svc'' ''FooBar'' []" example_env
      buffer_Write example_codec "[]" "Frame (Some [1, 2])" buffer_Write example_codec_part0
      "[]" "Frame (Some [1, 2])"]
    Write_Request_no_dot [of "example_message Request ''a.b'' ''Foo.Bar'' []" example_env
      buffer_Write example_codec "[]" "Frame (Some [1, 2])" buffer_Write example_codec_part0
      "[]" "Frame (Some [1, 2])"]
  by (simp add: example_message_def)

text \<open>
  Claim C8. For a message of kind Request (with a \<open>.\<close> in Endpoint, so that the
  marshalling step is reached) or Response, when marshalling the body fails with an
  error, Write (in both revisions) returns that error, the writer is as before, and
  in the message \<open>grpc-status\<close> is \<open>8\<close> and \<open>grpc-message\<close> is the text of the error.
\<close>

theorem Write_marshal_failure:
  assumes "Type m = Request \<or> Type m = Response"
    and "Type m = Request \<longrightarrow> CHR ''.'' \<in> set (Endpoint m)"
  shows "(Write_marshal X (refresh c m) b = (buf, Some err) \<longrightarrow>
            (\<exists>m'. Write X Wr c conn m b = Returns (Some err, refresh c m, conn, m')
                \<and> Header m' ''grpc-status'' = Some ''8''
                \<and> Header m' ''grpc-message'' = Some (ErrorString err)
                \<and> Body m' = Body m))
       \<and> (Marshal_part0 X (refresh c0 m) v [] = (buf0, Some err0) \<longrightarrow>
            (\<exists>m'. Write_part0 X Wr' c0 conn' m v = Returns (Some err0, refresh c0 m, conn', m')
                \<and> Header m' ''grpc-status'' = Some ''8''
                \<and> Header m' ''grpc-message'' = Some (ErrorString err0)
                \<and> Body m' = Body m))"
proof -
  have h: "\<exists>m'. Write_header c' m = Returns (False, m') \<and> Body m' = Body m"
    for c' :: "'z grpcCodec_scheme"
    using assms Write_header_Request_ok Write_header_Response by blast
  obtain m1 where m1: "Write_header (refresh c m) m = Returns (False, m1)" "Body m1 = Body m"
    using h by blast
  obtain m2 where m2: "Write_header (refresh c0 m) m = Returns (False, m2)" "Body m2 = Body m"
    using h by blast
  show ?thesis
    unfolding Write_continues [OF m1(1)] Write_part0_continues [OF m2(1)]
    using m1(2) m2(2) by simp
qed

theorem Write_marshal_failure_witness:
  "(Type (example_message Response ''svc'' ''Foo.Bar'' []) = Request
      \<or> Type (example_message Response ''svc'' ''Foo.Bar'' []) = Response)
   \<and> Write_marshal example_env
        (refresh example_codec (example_message Response ''svc'' ''Foo.Bar'' []))
        (Value False False (''go'', [1])) = (None, Some (New ''unknown content type''))
   \<and> Marshal_part0 example_env
        (refresh example_codec_part0 (example_message Response ''svc'' ''Foo.Bar'' []))
        (Value False False (''go'', [1])) [] = (None, Some (New ''invalid message''))
   \<and> Write example_env buffer_Write example_codec []
        (example_message Response ''svc'' ''Foo.Bar'' []) (Value False False (''go'', [1]))
      = Returns (Some (New ''unknown content type''), example_codec, [],
          (example_message Response ''svc'' ''Foo.Bar'' [])
            \<lparr>Header := [''Trailer'' \<mapsto> ''grpc-status'',
                         ''content-type'' \<mapsto> ''application/grpc'',
                         '':status'' \<mapsto> ''200'',
                         ''grpc-status'' \<mapsto> ''8'',
                         ''grpc-message'' \<mapsto> ''unknown content type'']\<rparr>)
   \<and> Write_part0 example_env buffer_Write example_codec_part0 []
        (example_message Response ''svc'' ''Foo.Bar'' []) (Value False False (''go'', [1]))
      = Returns (Some (New ''invalid message''), example_codec_part0, [],
          (example_message Response ''svc'' ''Foo.Bar'' [])
            \<lparr>Header := [''Trailer'' \<mapsto> ''grpc-status'',
                         ''content-type'' \<mapsto> ''application/grpc'',
                         '':status'' \<mapsto> ''200'',
                         ''grpc-status'' \<mapsto> ''8'',
                         ''grpc-message'' \<mapsto> ''invalid message'']\<rparr>)"
  using Write_marshal_failure [of "example_message Response ''svc'' ''Foo.Bar'' []"
      example_env example_codec "Value False False (''go'', [1])" None
      "New ''unknown content type''" buffer_Write "[]" example_codec_part0
      "Value False False (''go'', [1])" None "New ''invalid message''" buffer_Write "[]"]
  by (simp add: Write_def Write_part0_def Write_header_def Write_marshal_def Marshal_part0_def
      example_message_def example_env_def example_codec_def example_codec_part0_def
      refresh_def hget_def implements_proto_def flattenTag_def Let_def)

subsection \<open>Dispatch in src/grpc.go\<close>

lemma Marshal_precedence:
  "Marshal X c Nil = (None, None)"
  "Marshal X c (Frame d) = (d, None)"
  "ContentType c = ''application/grpc+json'' \<Longrightarrow>
     Marshal X c (Value True old x) = protojson_Marshal X JsonpbMarshaler (Value True old x)"
  "ContentType c = ''application/grpc+proto'' \<or> ContentType c = ''application/grpc'' \<Longrightarrow>
     Marshal X c (Value True old x) = proto_Marshal X (Value True old x)"
  "ContentType c = ''application/grpc+proto'' \<or> ContentType c = ''application/grpc'' \<Longrightarrow>
     Marshal X c (Value False True x) = oldproto_Marshal X (Value False True x)"
  "ContentType c = ''application/grpc+json'' \<Longrightarrow>
     Marshal X c (Value False False x) = json_Marshal X (Value False False x)"
  by (auto simp: Marshal_def)

lemma Unmarshal_precedence:
  "Unmarshal X c (Some d) (Frame d') = (Some (ErrInvalidMessage X), Frame (Some d))"
  "ContentType c = ''application/grpc+json'' \<Longrightarrow>
     Unmarshal X c (Some d) (Value new True x)
       = oldjsonpb_Unmarshal X OldJsonpbUnmarshaler (Some d) (Value new True x)"
  "ContentType c = ''application/grpc+proto'' \<or> ContentType c = ''application/grpc'' \<Longrightarrow>
     Unmarshal X c (Some d) (Value new True x) = oldproto_Unmarshal X (Some d) (Value new True x)"
  "ContentType c = ''application/grpc+json'' \<Longrightarrow>
     Unmarshal X c (Some d) (Value True False x)
       = protojson_Unmarshal X JsonpbUnmarshaler (Some d) (Value True False x)"
  "ContentType c = ''application/grpc+proto'' \<or> ContentType c = ''application/grpc'' \<Longrightarrow>
     Unmarshal X c (Some d) (Value True False x) = proto_Unmarshal X (Some d) (Value True False x)"
  "ContentType c = ''application/grpc+json'' \<Longrightarrow>
     Unmarshal X c (Some d) (Value False False x) = json_Unmarshal X (Some d) (Value False False x)"
  by (auto simp: Unmarshal_def)

text \<open>
  Claim C5, at the failing input. For a value that implements both protocol-buffer
  interfaces, with the content type \<open>application/grpc\<close>, Marshal calls the newer
  package, and Unmarshal calls \<^verbatim>\<open>oldproto.Unmarshal\<close>, not \<^verbatim>\<open>proto.Unmarshal\<close>.
\<close>

theorem Unmarshal_both_capabilities:
  "Marshal example_env example_codec (Value True True (''go'', [1, 2]))
     = proto_Marshal example_env (Value True True (''go'', [1, 2]))
   \<and> Unmarshal example_env example_codec (Some [1, 2]) (Value True True (''go'', []))
     = (None, Value True True (''oldproto'', [1, 2]))
   \<and> proto_Unmarshal example_env (Some [1, 2]) (Value True True (''go'', []))
     = (None, Value True True (''proto'', [1, 2]))"
  by (simp add: Marshal_def Unmarshal_def example_env_def example_codec_def stub_Unmarshal_def
      contents_def)

subsection \<open>ReadBody\<close>

lemma ReadBody_part0_flag_zero:
  assumes "decode (uintSize X) (DefaultMaxMsgSize X) Read conn = ((0, buf, None), conn')"
  shows "ReadBody_part0 X Read c conn v = (None, if v = Nil then conn else conn', v)"
  using assms by (simp add: ReadBody_part0_def)

lemma ReadBody_part0_flag_nonzero:
  assumes "decode (uintSize X) (DefaultMaxMsgSize X) Read conn = ((n, buf, None), conn')"
    and "n \<noteq> 0" and "v \<noteq> Nil"
  shows "ReadBody_part0 X Read c conn v =
           (fst (Unmarshal_part0 X c buf v []), conn', snd (Unmarshal_part0 X c buf v []))"
  using assms by (simp add: ReadBody_part0_def split: prod.splits)

lemma ReadBody_zero_length_frame:
  "ReadBody example_env bytes_Read example_codec [0, 0, 0, 0, 0] (Frame (Some [9]))
     = (Some (New ''unknown content type''), [], Frame None)"
  by (simp add: ReadBody_def decode_def bytes_Read_def into_def Uint32_def example_env_def
      Let_def)

text \<open>
  Claim C1, at the failing input. The frame that encode writes for the payload \<open>{}\<close>
  with flag 0 (the flag Write uses) is read by ReadBody of \<^verbatim>\<open>src/unnamed/part_000\<close>
  with no error and the target is left as it was, whereas Unmarshal of the payload
  stores it in the target; the same frame with flag 1 is unmarshalled.
\<close>

theorem ReadBody_part0_drops_frame:
  "encode buffer_Write 0 (Some [0x7b, 0x7d]) [] = (None, [0, 0, 0, 0, 2, 0x7b, 0x7d])
   \<and> ReadBody_part0 example_env bytes_Read example_codec_part0
        [0, 0, 0, 0, 2, 0x7b, 0x7d] (Frame None)
      = (None, [], Frame None)
   \<and> Unmarshal_part0 example_env example_codec_part0 (Some [0x7b, 0x7d]) (Frame None) []
      = (None, Frame (Some [0x7b, 0x7d]))
   \<and> ReadBody_part0 example_env bytes_Read example_codec_part0
        [1, 0, 0, 0, 2, 0x7b, 0x7d] (Frame None)
      = (None, [], Frame (Some [0x7b, 0x7d]))"
  by (simp add: ReadBody_part0_def Unmarshal_part0_def decode_def bytes_Read_def into_def
      Uint32_def maxInt_def example_env_def example_codec_part0_def len_def flattenTag_def
      encode_buffer PutUint32_def contents_def Let_def)

subsection \<open>Unmarshal without input or without target\<close>

text \<open>
  In both revisions Unmarshal returns no error and leaves the target as it was for a
  nil input and for a nil target. \<^verbatim>\<open>src/unnamed/part_000\<close> tests \<^verbatim>\<open>len(d) == 0\<close>, so
  there the same holds for every input of length 0, nil or not.
\<close>

lemma Unmarshal_nil:
  "Unmarshal X c None b = (None, b)"
  "Unmarshal X c d Nil = (None, Nil)"
  "Unmarshal_part0 X c0 d Nil os = (None, Nil)"
  "len d = 0 \<Longrightarrow> Unmarshal_part0 X c0 d v os = (None, v)"
  by (simp_all add: Unmarshal_def Unmarshal_part0_def)

text \<open>
  Claim C9, at the failing input. \<^verbatim>\<open>src/grpc.go\<close> tests \<^verbatim>\<open>d == nil\<close>, which an input
  that is empty but not nil passes: with a frame holding one byte as target, Unmarshal
  reaches the type switch, overwrites \<^verbatim>\<open>Data\<close> with the empty input and returns an
  error. For the nil input the same call returns no error and leaves the target as it
  was, and so does Unmarshal of \<^verbatim>\<open>src/unnamed/part_000\<close> for the empty input.
\<close>

theorem Unmarshal_empty_input:
  "len (Some []) = 0
   \<and> Unmarshal example_env example_codec (Some []) (Frame (Some [1]))
       = (Some (New ''invalid message''), Frame (Some []))
   \<and> Unmarshal example_env example_codec None (Frame (Some [1]))
       = (None, Frame (Some [1]))
   \<and> Unmarshal_part0 example_env example_codec_part0 (Some []) (Frame (Some [1])) []
       = (None, Frame (Some [1]))"
  by (simp add: Unmarshal_def Unmarshal_part0_def example_env_def len_def)

end
